theory Spec2Isabelle
  imports Main "HOL-Library.List_Lexorder" "HOL-Library.Char_ord"
begin

section \<open>The chat server as a state machine\<close>

text \<open>
  The server of \<^verbatim>\<open>src/unnamed/part_000\<close> keeps two kinds of state: the MongoDB
  collections behind the Mongoose models \<^verbatim>\<open>Room\<close>, \<^verbatim>\<open>Message\<close> and \<^verbatim>\<open>User\<close>, and the
  Socket.IO server's table of connected sockets with the rooms each has joined. Every
  handler is embedded as a function from that state to the state it leaves, the list
  of events it emits (one entry per receiving socket) and the exception it throws, if
  any. What a handler did before it threw stays done, as in JavaScript.

  Conventions of the embedding:
  \<^item> a JavaScript string is a list of code units below 256;
  \<^item> a payload position that a handler tests itself (optional chaining, truthiness,
    destructuring, a method call) is an \<open>option\<close>, \<open>None\<close> standing for
    \<^verbatim>\<open>undefined\<close>; a payload position handed straight to Mongoose or Socket.IO is a
    string (a room name) or an object id, as the wire protocol has it. Payloads of any
    other JSON type are not covered;
  \<^item> an \<^verbatim>\<open>ObjectId\<close> is a natural number, drawn from a counter of the state;
  \<^item> a collection is the list of its documents in the order of their creation, which
    is also the order of their \<^verbatim>\<open>time\<close> stamps;
  \<^item> the \<^verbatim>\<open>seen\<close> handler is embedded segment by segment: it suspends at each of its
    two \<^verbatim>\<open>await\<close>s, other handlers may run meanwhile, and an awaited operation of the
    store takes effect when the handler resumes. Every other handler is embedded as one
    step, its \<^verbatim>\<open>await\<close>s completing before the next event is taken;
  \<^item> the sign-up, login and logout routes are not embedded: the collection of users is
    a given of a run.
\<close>

subsection \<open>Strings\<close>

text \<open>The white space and line terminators that \<^verbatim>\<open>String.prototype.trim\<close> strips,
  among the code units below 256: TAB, LF, VT, FF, CR, SPACE and NBSP.\<close>

definition is_space :: "char \<Rightarrow> bool" where
  "is_space c = (c \<in> set [CHR 0x09, CHR 0x0A, CHR 0x0B, CHR 0x0C, CHR 0x0D, CHR 0x20, CHR 0xA0])"

definition trim :: "string \<Rightarrow> string" where
  "trim s = rev (dropWhile is_space (rev (dropWhile is_space s)))"

text \<open>Truthiness of a value that is a string or \<^verbatim>\<open>undefined\<close>: only a non-empty
  string is truthy.\<close>

definition truthy :: "string option \<Rightarrow> bool" where
  "truthy v = (case v of None \<Rightarrow> False | Some s \<Rightarrow> s \<noteq> [])"

subsection \<open>Documents\<close>

type_synonym oid = nat

text \<open>\<^verbatim>\<open>models/User.js\<close>.\<close>

record account =
  uid :: oid
  username :: string
  password :: string
  avatar :: "string option"

text \<open>\<^verbatim>\<open>roomSchema\<close> (\<^verbatim>\<open>src/unnamed/part_001\<close>). \<^verbatim>\<open>createdAt\<close> is never read.\<close>

record room =
  name :: string
  createdBy :: string

text \<open>\<^verbatim>\<open>messageSchema\<close> (\<^verbatim>\<open>models/Message.js\<close>): \<open>mid\<close> is \<^verbatim>\<open>_id\<close>, \<open>m_avatar\<close> is
  \<^verbatim>\<open>avatar\<close>, \<open>m_text\<close> is \<^verbatim>\<open>text\<close>; \<^verbatim>\<open>time\<close> is the position in the collection.\<close>

record message =
  mid :: oid
  room :: string
  user :: string
  m_avatar :: "string option"
  m_text :: string
  seenBy :: "string list"

subsection \<open>Sockets, events and the state\<close>

type_synonym sid = string

text \<open>A connected socket: \<^verbatim>\<open>socket.user\<close> (unset until the connection handler attaches
  it) and \<^verbatim>\<open>socket.rooms\<close>.\<close>

record sock =
  suser :: "account option"
  srooms :: "string list"

text \<open>A \<^verbatim>\<open>seen\<close> handler suspended at an \<^verbatim>\<open>await\<close>, with what it holds in its local
  variables: at \<^verbatim>\<open>await Message.findById(messageId)\<close> the socket's user and the id; at
  \<^verbatim>\<open>await m.save()\<close> the user and the handler's own copy \<^verbatim>\<open>m\<close> of the document, the
  username already pushed onto its \<^verbatim>\<open>seenBy\<close>.\<close>

datatype task =
    AtFind account "oid option"
  | AtSave account message

text \<open>\<open>pending\<close> holds the suspended handlers.\<close>

record state =
  rooms :: "room list"
  messages :: "message list"
  users :: "account list"
  next_id :: oid
  socks :: "(sid \<times> sock) list"
  pending :: "task list"

text \<open>The payloads of \<^verbatim>\<open>chatMessage\<close> and \<^verbatim>\<open>seen\<close> are destructured by their handlers.\<close>

record chat_payload =
  p_room :: "string option"
  p_text :: "string option"

record seen_payload =
  messageId :: "oid option"

datatype event =
    NewRoom "string option"
  | DeleteRoom string
  | JoinRoom string
  | ChatMessage "chat_payload option"
  | DeleteMessage oid
  | Typing "string option"
  | StopTyping "string option"
  | Seen "seen_payload option"

datatype outev =
    RoomList "room list"
  | History "message list"
  | MessageEv message
  | MessageDeleted oid
  | TypingEv string
  | StopTypingEv
  | SeenUpdate oid "string list"

type_synonym emit = "sid \<times> outev"

datatype exn = TypeError | ValidationError | DuplicateKey | DocumentNotFound

type_synonym result = "state \<times> emit list \<times> exn option"

subsection \<open>Mongoose models\<close>

text \<open>\<^verbatim>\<open>Room.find().sort('name')\<close>.\<close>

definition Room_find_sorted :: "room list \<Rightarrow> room list" where
  "Room_find_sorted rs = sort_key name rs"

text \<open>\<^verbatim>\<open>Room.exists({ name })\<close> and \<^verbatim>\<open>Room.findOne({ name })\<close>.\<close>

definition Room_exists :: "room list \<Rightarrow> string \<Rightarrow> bool" where
  "Room_exists rs nm = list_ex (\<lambda>r. name r = nm) rs"

definition Room_findOne :: "room list \<Rightarrow> string \<Rightarrow> room option" where
  "Room_findOne rs nm = find (\<lambda>r. name r = nm) rs"

text \<open>\<^verbatim>\<open>Room.create({ name, createdBy })\<close>: both paths are \<^verbatim>\<open>required\<close> (which an empty
  string fails) and \<^verbatim>\<open>name\<close> is \<^verbatim>\<open>unique\<close>. The schema has no \<^verbatim>\<open>trim\<close> option: the name
  is stored as given.\<close>

definition Room_create :: "state \<Rightarrow> string \<Rightarrow> string \<Rightarrow> exn + state \<times> room" where
  "Room_create st nm cb =
     (if nm = [] \<or> cb = [] then Inl ValidationError
      else if Room_exists (rooms st) nm then Inl DuplicateKey
      else (let r = \<lparr>name = nm, createdBy = cb\<rparr>
            in Inr (st\<lparr>rooms := rooms st @ [r]\<rparr>, r)))"

text \<open>\<^verbatim>\<open>room.deleteOne()\<close> on a document that \<^verbatim>\<open>findOne\<close> returned.\<close>

definition Room_deleteOne :: "state \<Rightarrow> room \<Rightarrow> state" where
  "Room_deleteOne st r = st\<lparr>rooms := remove1 r (rooms st)\<rparr>"

text \<open>\<^verbatim>\<open>Message.find({ room }).sort('time')\<close>.\<close>

definition Message_find :: "message list \<Rightarrow> string \<Rightarrow> message list" where
  "Message_find ms r = filter (\<lambda>m. room m = r) ms"

text \<open>\<^verbatim>\<open>Message.findById(id)\<close>; an \<^verbatim>\<open>undefined\<close> id finds nothing.\<close>

definition Message_findById :: "message list \<Rightarrow> oid option \<Rightarrow> message option" where
  "Message_findById ms i = (case i of None \<Rightarrow> None | Some j \<Rightarrow> find (\<lambda>m. mid m = j) ms)"

text \<open>\<^verbatim>\<open>Message.create({ room, user, avatar, text })\<close>: \<^verbatim>\<open>room\<close>, \<^verbatim>\<open>user\<close> and \<^verbatim>\<open>text\<close> are
  \<^verbatim>\<open>required\<close>, \<^verbatim>\<open>seenBy\<close> defaults to the empty array, and no path has a \<^verbatim>\<open>trim\<close>
  option.\<close>

definition Message_create ::
  "state \<Rightarrow> string \<Rightarrow> string \<Rightarrow> string option \<Rightarrow> string \<Rightarrow> exn + state \<times> message" where
  "Message_create st r un av t =
     (if r = [] \<or> un = [] \<or> t = [] then Inl ValidationError
      else (let m = \<lparr>mid = next_id st, room = r, user = un, m_avatar = av, m_text = t, seenBy = []\<rparr>
            in Inr (st\<lparr>messages := messages st @ [m], next_id := Suc (next_id st)\<rparr>, m)))"

text \<open>\<^verbatim>\<open>Message.deleteOne({ _id })\<close>.\<close>

fun delete_doc :: "oid \<Rightarrow> message list \<Rightarrow> message list" where
  "delete_doc i [] = []"
| "delete_doc i (m # ms) = (if mid m = i then ms else m # delete_doc i ms)"

definition Message_deleteOne :: "state \<Rightarrow> oid \<Rightarrow> state" where
  "Message_deleteOne st i = st\<lparr>messages := delete_doc i (messages st)\<rparr>"

text \<open>\<^verbatim>\<open>m.save()\<close> after \<^verbatim>\<open>m.seenBy.push(un)\<close>: Mongoose sends the change made to \<open>m\<close>, not
  \<open>m\<close> itself: the store pushes \<open>un\<close> onto the \<^verbatim>\<open>seenBy\<close> that the document with the id of
  \<open>m\<close> has by then. When that document is gone, \<^verbatim>\<open>save\<close> throws.\<close>

fun push_seenBy :: "oid \<Rightarrow> string \<Rightarrow> message list \<Rightarrow> message list" where
  "push_seenBy i un [] = []"
| "push_seenBy i un (x # xs) =
     (if mid x = i then x\<lparr>seenBy := seenBy x @ [un]\<rparr> # xs else x # push_seenBy i un xs)"

definition Message_save :: "state \<Rightarrow> message \<Rightarrow> string \<Rightarrow> exn + state" where
  "Message_save st m un =
     (case Message_findById (messages st) (Some (mid m)) of
        None \<Rightarrow> Inl DocumentNotFound
      | Some x \<Rightarrow> Inr (st\<lparr>messages := push_seenBy (mid m) un (messages st)\<rparr>))"

text \<open>\<^verbatim>\<open>User.findById(id)\<close>.\<close>

definition User_findById :: "account list \<Rightarrow> oid \<Rightarrow> account option" where
  "User_findById us i = find (\<lambda>u. uid u = i) us"

subsection \<open>Socket.IO\<close>

text \<open>\<^verbatim>\<open>io.emit\<close> reaches every connected socket, \<^verbatim>\<open>io.to(room).emit\<close> every socket that
  has joined the room, and \<^verbatim>\<open>socket.emit\<close> the socket itself. \<^verbatim>\<open>socket.to(room).emit\<close>
  is a broadcast to the room that excepts the room named by the sender's id (the server
  is built with \<^verbatim>\<open>new Server(server)\<close>, the interface of Socket.IO 3 and 4): it reaches
  every socket that has joined \<open>r\<close> and is not, at that moment, in the room \<open>s\<close>. The
  sender is in that room from its connection until it leaves it.\<close>

definition io_emit :: "state \<Rightarrow> outev \<Rightarrow> emit list" where
  "io_emit st ev = map (\<lambda>p. (fst p, ev)) (socks st)"

definition io_to :: "state \<Rightarrow> string \<Rightarrow> outev \<Rightarrow> emit list" where
  "io_to st r ev = map (\<lambda>p. (fst p, ev)) (filter (\<lambda>p. r \<in> set (srooms (snd p))) (socks st))"

definition socket_to :: "state \<Rightarrow> sid \<Rightarrow> string \<Rightarrow> outev \<Rightarrow> emit list" where
  "socket_to st s r ev =
     map (\<lambda>p. (fst p, ev))
       (filter (\<lambda>p. r \<in> set (srooms (snd p)) \<and> s \<notin> set (srooms (snd p))) (socks st))"

definition socket_emit :: "sid \<Rightarrow> outev \<Rightarrow> emit list" where
  "socket_emit s ev = [(s, ev)]"

definition update_sock :: "sid \<Rightarrow> (sock \<Rightarrow> sock) \<Rightarrow> state \<Rightarrow> state" where
  "update_sock s f st = st\<lparr>socks := map (\<lambda>p. if fst p = s then (fst p, f (snd p)) else p) (socks st)\<rparr>"

text \<open>\<^verbatim>\<open>socket.leaveAll()\<close> and \<^verbatim>\<open>socket.join(room)\<close>.\<close>

definition leaveAll :: "state \<Rightarrow> sid \<Rightarrow> state" where
  "leaveAll st s = update_sock s (\<lambda>k. k\<lparr>srooms := []\<rparr>) st"

definition join :: "state \<Rightarrow> sid \<Rightarrow> string \<Rightarrow> state" where
  "join st s r = update_sock s (\<lambda>k. k\<lparr>srooms := List.insert r (srooms k)\<rparr>) st"

text \<open>\<^verbatim>\<open>socket.disconnect()\<close>, and a client going away: the socket leaves the server's
  table, and its rooms with it.\<close>

definition disconnect :: "state \<Rightarrow> sid \<Rightarrow> state" where
  "disconnect st s = st\<lparr>socks := filter (\<lambda>p. fst p \<noteq> s) (socks st)\<rparr>"

text \<open>The rooms a socket is in; none when it is not connected.\<close>

definition rooms_of :: "state \<Rightarrow> sid \<Rightarrow> string list" where
  "rooms_of st s = (case map_of (socks st) s of None \<Rightarrow> [] | Some k \<Rightarrow> srooms k)"

subsection \<open>The handlers\<close>

text \<open>In each handler \<open>s\<close> is the socket and \<open>u\<close> its \<^verbatim>\<open>socket.user\<close>.\<close>

text \<open>\<^verbatim>\<open>socket.on('newRoom', ...)\<close>: \<^verbatim>\<open>name?.trim()\<close> is \<^verbatim>\<open>undefined\<close> for a missing name.\<close>

definition newRoom :: "state \<Rightarrow> sid \<Rightarrow> account \<Rightarrow> string option \<Rightarrow> result" where
  "newRoom st s u nm =
     (case nm of
        None \<Rightarrow> (st, [], None)
      | Some n \<Rightarrow>
          if truthy (Some (trim n)) \<and> \<not> Room_exists (rooms st) n then
            (case Room_create st n (username u) of
               Inl e \<Rightarrow> (st, [], Some e)
             | Inr (st', r) \<Rightarrow> (st', io_emit st' (RoomList (Room_find_sorted (rooms st'))), None))
          else (st, [], None))"

text \<open>\<^verbatim>\<open>socket.on('deleteRoom', ...)\<close>.\<close>

definition deleteRoom :: "state \<Rightarrow> sid \<Rightarrow> account \<Rightarrow> string \<Rightarrow> result" where
  "deleteRoom st s u nm =
     (case Room_findOne (rooms st) nm of
        None \<Rightarrow> (st, [], None)
      | Some r \<Rightarrow>
          if createdBy r = username u then
            (let st' = Room_deleteOne st r
             in (st', io_emit st' (RoomList (Room_find_sorted (rooms st'))), None))
          else (st, [], None))"

text \<open>\<^verbatim>\<open>socket.on('joinRoom', ...)\<close>.\<close>

definition joinRoom :: "state \<Rightarrow> sid \<Rightarrow> account \<Rightarrow> string \<Rightarrow> result" where
  "joinRoom st s u r =
     (let st1 = leaveAll st s;
          st2 = join st1 s r;
          history = Message_find (messages st2) r
      in (st2, socket_emit s (History history), None))"

text \<open>\<^verbatim>\<open>socket.on('chatMessage', ...)\<close>: destructuring \<^verbatim>\<open>undefined\<close> throws; \<^verbatim>\<open>!room\<close> is
  tested first and returns without looking at \<^verbatim>\<open>text\<close>; \<^verbatim>\<open>text.trim()\<close> throws when
  \<^verbatim>\<open>text\<close> is \<^verbatim>\<open>undefined\<close>.\<close>

definition chatMessage :: "state \<Rightarrow> sid \<Rightarrow> account \<Rightarrow> chat_payload option \<Rightarrow> result" where
  "chatMessage st s u payload =
     (case payload of
        None \<Rightarrow> (st, [], Some TypeError)
      | Some p \<Rightarrow>
          (case p_room p of
             None \<Rightarrow> (st, [], None)
           | Some r \<Rightarrow>
               if \<not> truthy (Some r) then (st, [], None)
               else
                 (case p_text p of
                    None \<Rightarrow> (st, [], Some TypeError)
                  | Some t \<Rightarrow>
                      if \<not> truthy (Some (trim t)) then (st, [], None)
                      else
                        (case Message_create st r (username u) (avatar u) t of
                           Inl e \<Rightarrow> (st, [], Some e)
                         | Inr (st', m) \<Rightarrow> (st', io_to st' r (MessageEv m), None)))))"

text \<open>\<^verbatim>\<open>socket.on('deleteMessage', ...)\<close>.\<close>

definition deleteMessage :: "state \<Rightarrow> sid \<Rightarrow> account \<Rightarrow> oid \<Rightarrow> result" where
  "deleteMessage st s u i =
     (case Message_findById (messages st) (Some i) of
        None \<Rightarrow> (st, [], None)
      | Some m \<Rightarrow>
          if user m = username u then
            (let st' = Message_deleteOne st i
             in (st', io_to st' (room m) (MessageDeleted i), None))
          else (st, [], None))"

text \<open>\<^verbatim>\<open>socket.on('typing', ...)\<close> and \<^verbatim>\<open>socket.on('stopTyping', ...)\<close>.\<close>

definition typing :: "state \<Rightarrow> sid \<Rightarrow> account \<Rightarrow> string option \<Rightarrow> result" where
  "typing st s u rm =
     (case rm of
        None \<Rightarrow> (st, [], None)
      | Some r \<Rightarrow>
          if \<not> truthy (Some r) then (st, [], None)
          else (st, socket_to st s r (TypingEv (username u)), None))"

definition stopTyping :: "state \<Rightarrow> sid \<Rightarrow> account \<Rightarrow> string option \<Rightarrow> result" where
  "stopTyping st s u rm =
     (case rm of
        None \<Rightarrow> (st, [], None)
      | Some r \<Rightarrow>
          if \<not> truthy (Some r) then (st, [], None)
          else (st, socket_to st s r StopTypingEv, None))"

text \<open>\<^verbatim>\<open>socket.on('seen', ...)\<close>, its first segment: destructuring \<^verbatim>\<open>undefined\<close> throws;
  otherwise the handler suspends at \<^verbatim>\<open>await Message.findById(messageId)\<close>.\<close>

definition seen :: "state \<Rightarrow> sid \<Rightarrow> account \<Rightarrow> seen_payload option \<Rightarrow> result" where
  "seen st s u payload =
     (case payload of
        None \<Rightarrow> (st, [], Some TypeError)
      | Some p \<Rightarrow> (st\<lparr>pending := pending st @ [AtFind u (messageId p)]\<rparr>, [], None))"

text \<open>The second segment, from the answer of \<^verbatim>\<open>findById\<close> to \<^verbatim>\<open>await m.save()\<close>: the test
  and the push are on the handler's copy \<open>m\<close> of the document. The result is the task the
  handler suspends in, if it does.\<close>

definition seen_found :: "state \<Rightarrow> account \<Rightarrow> oid option \<Rightarrow> task option" where
  "seen_found st u i =
     (case Message_findById (messages st) i of
        None \<Rightarrow> None
      | Some m \<Rightarrow>
          if username u \<notin> set (seenBy m) then
            Some (AtSave u (m\<lparr>seenBy := seenBy m @ [username u]\<rparr>))
          else None)"

text \<open>The third segment, from the completion of \<^verbatim>\<open>m.save()\<close> to the end: the broadcast
  carries the \<^verbatim>\<open>seenBy\<close> of the handler's copy.\<close>

definition seen_saved :: "state \<Rightarrow> account \<Rightarrow> message \<Rightarrow> result" where
  "seen_saved st u m =
     (case Message_save st m (username u) of
        Inl e \<Rightarrow> (st, [], Some e)
      | Inr st' \<Rightarrow> (st', io_to st' (room m) (SeenUpdate (mid m) (seenBy m)), None))"

text \<open>The \<open>n\<close>-th suspended handler resumes and runs to its next \<^verbatim>\<open>await\<close> or to its
  end.\<close>

definition resume :: "state \<Rightarrow> nat \<Rightarrow> result" where
  "resume st n =
     (if n < length (pending st) then
        (case pending st ! n of
           AtFind u i \<Rightarrow>
             (case seen_found st u i of
                None \<Rightarrow> (st\<lparr>pending := take n (pending st) @ drop (Suc n) (pending st)\<rparr>, [], None)
              | Some t \<Rightarrow> (st\<lparr>pending := (pending st)[n := t]\<rparr>, [], None))
         | AtSave u m \<Rightarrow>
             (case seen_saved st u m of
                (st', out, e) \<Rightarrow>
                  (st'\<lparr>pending := take n (pending st) @ drop (Suc n) (pending st)\<rparr>, out, e)))
      else (st, [], None))"

text \<open>An inbound event reaches a handler only on a socket for which the connection
  handler got as far as registering them, that is, one with \<^verbatim>\<open>socket.user\<close> attached.\<close>

definition on_event :: "state \<Rightarrow> sid \<Rightarrow> event \<Rightarrow> result" where
  "on_event st s ev =
     (case map_of (socks st) s of
        None \<Rightarrow> (st, [], None)
      | Some k \<Rightarrow>
          (case suser k of
             None \<Rightarrow> (st, [], None)
           | Some u \<Rightarrow>
               (case ev of
                  NewRoom nm \<Rightarrow> newRoom st s u nm
                | DeleteRoom nm \<Rightarrow> deleteRoom st s u nm
                | JoinRoom r \<Rightarrow> joinRoom st s u r
                | ChatMessage p \<Rightarrow> chatMessage st s u p
                | DeleteMessage i \<Rightarrow> deleteMessage st s u i
                | Typing r \<Rightarrow> typing st s u r
                | StopTyping r \<Rightarrow> stopTyping st s u r
                | Seen p \<Rightarrow> seen st s u p)))"

subsection \<open>Connecting\<close>

text \<open>The session of the upgrade request: \<^verbatim>\<open>session.passport\<close> may be missing, and so may
  \<^verbatim>\<open>passport.user\<close>. \<open>passport_user\<close> is \<^verbatim>\<open>socket.request.session.passport?.user\<close>.\<close>

type_synonym session = "oid option option"

definition passport_user :: "session \<Rightarrow> oid option" where
  "passport_user sess = (case sess of None \<Rightarrow> None | Some p \<Rightarrow> p)"

text \<open>\<^verbatim>\<open>io.on('connection', ...)\<close>. Socket.IO has put the socket, joined to the room of its
  own id, into its table before the handler runs. When the user of the session is gone
  from the store, \<^verbatim>\<open>socket.user\<close> is \<^verbatim>\<open>null\<close> and the log line reading its \<^verbatim>\<open>username\<close>
  throws: the socket stays connected with no handler.\<close>

definition connection :: "state \<Rightarrow> sid \<Rightarrow> session \<Rightarrow> result" where
  "connection st s sess =
     (let st0 = st\<lparr>socks := socks st @ [(s, \<lparr>suser = None, srooms = [s]\<rparr>)]\<rparr>
      in case passport_user sess of
           None \<Rightarrow> (disconnect st0 s, [], None)
         | Some i \<Rightarrow>
             (case User_findById (users st0) i of
                None \<Rightarrow> (st0, [], Some TypeError)
              | Some u \<Rightarrow>
                  (let st1 = update_sock s (\<lambda>k. k\<lparr>suser := Some u\<rparr>) st0
                   in (st1, socket_emit s (RoomList (Room_find_sorted (rooms st1))), None))))"

subsection \<open>The index page\<close>

datatype response = Redirect string | Render account "room list"

text \<open>\<^verbatim>\<open>app.get('/', ensureAuth, ...)\<close>: \<open>req_user\<close> is \<^verbatim>\<open>req.user\<close>, set for an authenticated
  request. After an exception no response is sent.\<close>

definition index :: "state \<Rightarrow> account option \<Rightarrow> state \<times> response option \<times> exn option" where
  "index st req_user =
     (case req_user of
        None \<Rightarrow> (st, Some (Redirect ''/login''), None)
      | Some u \<Rightarrow>
          (let rs = Room_find_sorted (rooms st)
           in if rs = [] then
                (case Room_create st ''lobby'' (username u) of
                   Inl e \<Rightarrow> (st, None, Some e)
                 | Inr (st', lobby) \<Rightarrow> (st', Some (Render u [lobby]), None))
              else (st, Some (Render u rs), None)))"

subsection \<open>Runs of the server\<close>

datatype action =
    Connection sid session
  | Inbound sid event
  | Disconnect sid
  | GetIndex session
  | Resume nat

text \<open>\<^verbatim>\<open>req.user\<close> as \<^verbatim>\<open>passport.deserializeUser\<close> computes it from the session.\<close>

definition deserializeUser :: "state \<Rightarrow> session \<Rightarrow> account option" where
  "deserializeUser st sess =
     (case passport_user sess of None \<Rightarrow> None | Some i \<Rightarrow> User_findById (users st) i)"

definition step :: "state \<Rightarrow> action \<Rightarrow> state" where
  "step st a =
     (case a of
        Connection s sess \<Rightarrow> fst (connection st s sess)
      | Inbound s ev \<Rightarrow> fst (on_event st s ev)
      | Disconnect s \<Rightarrow> disconnect st s
      | GetIndex sess \<Rightarrow> fst (index st (deserializeUser st sess))
      | Resume n \<Rightarrow> fst (resume st n))"

definition run :: "state \<Rightarrow> action list \<Rightarrow> state" where
  "run st as = foldl step st as"

text \<open>The server at start-up, over a store holding the users \<open>us\<close> and nothing else.\<close>

definition init :: "account list \<Rightarrow> state" where
  "init us = \<lparr>rooms = [], messages = [], users = us, next_id = 0, socks = [], pending = []\<rparr>"

subsection \<open>Predicates of the properties\<close>

text \<open>Every connected socket is in at most one room.\<close>

definition single_room :: "state \<Rightarrow> bool" where
  "single_room st = list_all (\<lambda>p. length (srooms (snd p)) \<le> 1) (socks st)"

text \<open>The socket is connected and its handlers are registered.\<close>

definition registered :: "state \<Rightarrow> sid \<Rightarrow> bool" where
  "registered st s = (case map_of (socks st) s of None \<Rightarrow> False | Some k \<Rightarrow> suser k \<noteq> None)"

text \<open>No stored room name is blank, and no two stored rooms have the same name.\<close>

definition rooms_ok :: "state \<Rightarrow> bool" where
  "rooms_ok st = (list_all (\<lambda>r. trim (name r) \<noteq> []) (rooms st) \<and> distinct (map name (rooms st)))"

section \<open>Auxiliary facts\<close>

subsection \<open>What each operation leaves alone\<close>

lemma map_of_upd:
  "map_of (map (\<lambda>p. if fst p = s then (fst p, f (snd p)) else p) xs) s' =
     (if s' = s then map_option f (map_of xs s) else map_of xs s')"
  by (induction xs) auto

lemma Room_create_frame:
  "Room_create st n c = Inr (st', r) \<Longrightarrow>
     st' = st\<lparr>rooms := rooms st @ [r]\<rparr> \<and> r = \<lparr>name = n, createdBy = c\<rparr> \<and>
     n \<noteq> [] \<and> c \<noteq> [] \<and> \<not> Room_exists (rooms st) n"
  by (auto simp: Room_create_def Let_def split: if_splits)

lemma Message_create_frame:
  "Message_create st r un av t = Inr (st', m) \<Longrightarrow>
     st' = st\<lparr>messages := messages st @ [m], next_id := Suc (next_id st)\<rparr> \<and>
     m = \<lparr>mid = next_id st, room = r, user = un, m_avatar = av, m_text = t, seenBy = []\<rparr>"
  by (auto simp: Message_create_def Let_def split: if_splits)

lemma socks_newRoom: "socks (fst (newRoom st s u nm)) = socks st"
  by (auto simp: newRoom_def split: option.splits sum.splits dest: Room_create_frame)

lemma socks_deleteRoom: "socks (fst (deleteRoom st s u nm)) = socks st"
  by (simp add: deleteRoom_def Room_deleteOne_def Let_def split: option.splits)

lemma socks_chatMessage: "socks (fst (chatMessage st s u p)) = socks st"
  by (auto simp: chatMessage_def split: option.splits sum.splits dest: Message_create_frame)

lemma socks_deleteMessage: "socks (fst (deleteMessage st s u i)) = socks st"
  by (simp add: deleteMessage_def Message_deleteOne_def Let_def split: option.splits)

lemma socks_typing: "socks (fst (typing st s u r)) = socks st"
  by (simp add: typing_def split: option.splits)

lemma socks_stopTyping: "socks (fst (stopTyping st s u r)) = socks st"
  by (simp add: stopTyping_def split: option.splits)

lemma socks_seen: "socks (fst (seen st s u p)) = socks st"
  by (simp add: seen_def split: option.splits)

lemma socks_seen_saved: "socks (fst (seen_saved st u m)) = socks st"
  by (simp add: seen_saved_def Message_save_def split: option.splits sum.splits)

lemma rooms_seen_saved: "rooms (fst (seen_saved st u m)) = rooms st"
  by (simp add: seen_saved_def Message_save_def split: option.splits sum.splits)

lemma socks_resume: "socks (fst (resume st n)) = socks st"
  by (simp add: resume_def case_prod_beta socks_seen_saved split: task.splits option.splits)

lemma rooms_resume: "rooms (fst (resume st n)) = rooms st"
  by (simp add: resume_def case_prod_beta rooms_seen_saved split: task.splits option.splits)

lemma socks_index: "socks (fst (index st ru)) = socks st"
  by (auto simp: index_def Let_def split: option.splits sum.splits dest: Room_create_frame)

lemma socks_joinRoom:
  "socks (fst (joinRoom st s u r)) =
     map (\<lambda>p. if fst p = s then (fst p, snd p\<lparr>srooms := [r]\<rparr>) else p) (socks st)"
  by (simp add: joinRoom_def leaveAll_def join_def update_sock_def Let_def o_def if_distrib cong: if_cong)

lemma messages_deleteRoom: "messages (fst (deleteRoom st s u nm)) = messages st"
  by (simp add: deleteRoom_def Room_deleteOne_def Let_def split: option.splits)

lemma messages_newRoom: "messages (fst (newRoom st s u nm)) = messages st"
  by (auto simp: newRoom_def split: option.splits sum.splits dest: Room_create_frame)

lemma rooms_chatMessage: "rooms (fst (chatMessage st s u p)) = rooms st"
  by (auto simp: chatMessage_def split: option.splits sum.splits dest: Message_create_frame)

lemma joinRoom_history:
  "fst (snd (joinRoom st s u r)) = [(s, History (filter (\<lambda>m. room m = r) (messages st)))]"
  by (simp add: joinRoom_def leaveAll_def join_def update_sock_def Let_def socket_emit_def
      Message_find_def)

lemma Room_find_sorted_Nil: "Room_find_sorted rs = [] \<longleftrightarrow> rs = []"
proof -
  have "length (Room_find_sorted rs) = length rs" by (simp add: Room_find_sorted_def)
  then show ?thesis by (metis length_0_conv)
qed

subsection \<open>One room per socket, along every run\<close>

lemma single_room_joinRoom: "single_room st \<Longrightarrow> single_room (fst (joinRoom st s u r))"
  by (auto simp: single_room_def socks_joinRoom list_all_iff)

lemma single_room_on_event: "single_room st \<Longrightarrow> single_room (fst (on_event st s ev))"
  unfolding on_event_def
  by (cases ev)
     (auto simp: single_room_joinRoom split: option.splits,
      simp_all add: single_room_def socks_newRoom socks_deleteRoom socks_chatMessage
        socks_deleteMessage socks_typing socks_stopTyping socks_seen)

lemma single_room_disconnect: "single_room st \<Longrightarrow> single_room (disconnect st s)"
  by (simp add: single_room_def disconnect_def list_all_iff)

lemma single_room_connection: "single_room st \<Longrightarrow> single_room (fst (connection st s sess))"
  by (auto simp: single_room_def connection_def disconnect_def update_sock_def Let_def list_all_iff
      split: option.splits)

lemma single_room_step: "single_room st \<Longrightarrow> single_room (step st a)"
  by (cases a)
     (simp_all add: step_def single_room_on_event single_room_disconnect single_room_connection,
      simp_all add: single_room_def socks_index socks_resume)

lemma single_room_run: "single_room st \<Longrightarrow> single_room (run st as)"
  unfolding run_def by (induction as arbitrary: st) (simp_all add: single_room_step)

lemma single_room_init: "single_room (init us)"
  by (simp add: single_room_def init_def)

lemma rooms_of_joinRoom:
  "map_of (socks st) s = Some k \<Longrightarrow> rooms_of (fst (joinRoom st s u r)) s = [r]"
  by (simp add: socks_joinRoom rooms_of_def map_of_upd)

lemma registered_joinRoom:
  "registered st s \<Longrightarrow> registered (fst (joinRoom st s u r)) s"
  by (auto simp: registered_def socks_joinRoom map_of_upd split: option.splits)

subsection \<open>Room names, along every run\<close>

lemma distinct_map_remove1: "distinct (map f xs) \<Longrightarrow> distinct (map f (remove1 x xs))"
proof (induction xs)
  case Nil
  then show ?case by simp
next
  case (Cons a xs)
  have "f a \<notin> f ` set (remove1 x xs)" if "f a \<notin> f ` set xs"
    using that set_remove1_subset [of x xs] by blast
  with Cons show ?case by auto
qed

lemma rooms_ok_index: "rooms_ok st \<Longrightarrow> rooms_ok (fst (index st ru))"
  by (auto simp: index_def Let_def Room_find_sorted_Nil rooms_ok_def trim_def is_space_def
      split: option.splits sum.splits dest!: Room_create_frame)

lemma rooms_ok_deleteRoom: "rooms_ok st \<Longrightarrow> rooms_ok (fst (deleteRoom st s u nm))"
  by (auto simp: deleteRoom_def Room_deleteOne_def Let_def rooms_ok_def list_all_iff
      distinct_map_remove1 split: option.splits dest: notin_set_remove1)

lemma rooms_ok_newRoom: "rooms_ok st \<Longrightarrow> rooms_ok (fst (newRoom st s u nm))"
  by (auto simp: newRoom_def rooms_ok_def truthy_def Room_exists_def list_ex_iff
      split: option.splits sum.splits dest!: Room_create_frame)

lemma rooms_ok_on_event: "rooms_ok st \<Longrightarrow> rooms_ok (fst (on_event st s ev))"
  unfolding on_event_def
  by (cases ev)
     (auto simp: rooms_ok_newRoom rooms_ok_deleteRoom split: option.splits,
      simp_all add: rooms_ok_def rooms_chatMessage joinRoom_def leaveAll_def join_def update_sock_def
        Let_def deleteMessage_def Message_deleteOne_def typing_def stopTyping_def seen_def
        split: option.splits)

lemma rooms_ok_connection: "rooms_ok st \<Longrightarrow> rooms_ok (fst (connection st s sess))"
  by (auto simp: rooms_ok_def connection_def disconnect_def update_sock_def Let_def
      split: option.splits)

lemma rooms_ok_step: "rooms_ok st \<Longrightarrow> rooms_ok (step st a)"
  by (cases a)
     (simp_all add: step_def rooms_ok_on_event rooms_ok_connection rooms_ok_index,
      simp_all add: rooms_ok_def disconnect_def rooms_resume)

lemma rooms_ok_run: "rooms_ok st \<Longrightarrow> rooms_ok (run st as)"
  unfolding run_def by (induction as arbitrary: st) (simp_all add: rooms_ok_step)

lemma rooms_ok_init: "rooms_ok (init us)"
  by (simp add: rooms_ok_def init_def)

subsection \<open>Sequences of joins\<close>

lemma step_join:
  assumes "registered st s"
  shows "registered (step st (Inbound s (JoinRoom r))) s \<and>
         rooms_of (step st (Inbound s (JoinRoom r))) s = [r]"
proof -
  from assms obtain k u where k: "map_of (socks st) s = Some k" "suser k = Some u"
    by (auto simp: registered_def split: option.splits)
  then have "step st (Inbound s (JoinRoom r)) = fst (joinRoom st s u r)"
    by (simp add: step_def on_event_def)
  then show ?thesis
    using assms k(1) by (simp add: registered_joinRoom rooms_of_joinRoom)
qed

lemma run_joins:
  "registered st s \<Longrightarrow>
     registered (run st (map (\<lambda>r. Inbound s (JoinRoom r)) rs)) s \<and>
     (rs \<noteq> [] \<longrightarrow> rooms_of (run st (map (\<lambda>r. Inbound s (JoinRoom r)) rs)) s = [last rs])"
proof (induction rs rule: rev_induct)
  case Nil
  then show ?case by (simp add: run_def)
next
  case (snoc r rs)
  then have "registered (run st (map (\<lambda>r. Inbound s (JoinRoom r)) rs)) s" by simp
  from step_join [OF this, of r] show ?case by (simp add: run_def)
qed

section \<open>The claims\<close>

subsection \<open>C1: one room per connection\<close>

text \<open>
  Claim C1. In every state the server reaches, whatever the connections, disconnections,
  page requests and inbound events that led there, every connected socket is in at most
  one room. After any non-empty sequence of \<^verbatim>\<open>joinRoom\<close> events of a socket with
  registered handlers, the socket is in the room of the last one and in no other. In
  particular after \<^verbatim>\<open>joinRoom(A)\<close> and then \<^verbatim>\<open>joinRoom(B)\<close>, with \<open>A\<close> other than \<open>B\<close>, it
  is not a member of \<open>A\<close>: the handler leaves every room before it joins.
\<close>

theorem join_leaves_previous_room:
  "single_room (run (init us) as) \<and>
   (registered st s \<and> rs \<noteq> [] \<longrightarrow>
      rooms_of (run st (map (\<lambda>r. Inbound s (JoinRoom r)) rs)) s = [last rs]) \<and>
   (registered st s \<and> A \<noteq> B \<longrightarrow>
      A \<notin> set (rooms_of (run st [Inbound s (JoinRoom A), Inbound s (JoinRoom B)]) s))"
proof -
  have inv: "single_room (run (init us) as)"
    by (rule single_room_run [OF single_room_init])
  have seq: "rooms_of (run st (map (\<lambda>r. Inbound s (JoinRoom r)) rs)) s = [last rs]"
    if "registered st s" "rs \<noteq> []"
    using run_joins [OF that(1), of rs] that(2) by simp
  have two: "A \<notin> set (rooms_of (run st [Inbound s (JoinRoom A), Inbound s (JoinRoom B)]) s)"
    if "registered st s" "A \<noteq> B"
    using run_joins [OF that(1), of "[A, B]"] that(2) by simp
  show ?thesis using inv seq two by blast
qed

theorem join_leaves_previous_room_witness:
  "single_room (run (init [\<lparr>uid = 0, username = ''alice'', password = ''pw'', avatar = None\<rparr>])
     [Connection ''s1'' (Some (Some 0)), Inbound ''s1'' (JoinRoom ''a''), Inbound ''s1'' (JoinRoom ''b'')]) \<and>
   registered (run (init [\<lparr>uid = 0, username = ''alice'', password = ''pw'', avatar = None\<rparr>])
     [Connection ''s1'' (Some (Some 0))]) ''s1'' \<and>
   [''a'', ''b'', ''c''] \<noteq> [] \<and> ''a'' \<noteq> ''b'' \<and>
   rooms_of (run (run (init [\<lparr>uid = 0, username = ''alice'', password = ''pw'', avatar = None\<rparr>])
     [Connection ''s1'' (Some (Some 0))])
     [Inbound ''s1'' (JoinRoom ''a''), Inbound ''s1'' (JoinRoom ''b''), Inbound ''s1'' (JoinRoom ''c'')])
     ''s1'' = [''c''] \<and>
   ''a'' \<notin> set (rooms_of (run (run (init [\<lparr>uid = 0, username = ''alice'', password = ''pw'', avatar = None\<rparr>])
     [Connection ''s1'' (Some (Some 0))])
     [Inbound ''s1'' (JoinRoom ''a''), Inbound ''s1'' (JoinRoom ''b'')]) ''s1'')"
proof -
  let ?us = "[\<lparr>uid = 0, username = ''alice'', password = ''pw'', avatar = None\<rparr>]"
  let ?st = "run (init ?us) [Connection ''s1'' (Some (Some 0))]"
  have reg: "registered ?st ''s1''"
    by (simp add: registered_def run_def step_def init_def connection_def passport_user_def
        User_findById_def update_sock_def socket_emit_def Let_def)
  show ?thesis
    using reg
      join_leaves_previous_room [of ?us
        "[Connection ''s1'' (Some (Some 0)), Inbound ''s1'' (JoinRoom ''a''), Inbound ''s1'' (JoinRoom ''b'')]"
        ?st "''s1''" "[''a'', ''b'', ''c'']" "''a''" "''b''"]
    by simp
qed

subsection \<open>C2: a failed precondition is not always silent\<close>

text \<open>
  Claim C2 says that an inbound event whose precondition fails, a malformed payload
  included, changes nothing, emits nothing and raises no exception. The handlers do not
  bear that out: a \<^verbatim>\<open>chatMessage\<close> naming a room and carrying no \<^verbatim>\<open>text\<close> throws a
  \<^verbatim>\<open>TypeError\<close> from \<^verbatim>\<open>text.trim()\<close>, and a \<^verbatim>\<open>chatMessage\<close> or a \<^verbatim>\<open>seen\<close> with no
  payload at all throws one from the destructuring of its parameter. (The \<^verbatim>\<open>newRoom\<close>
  handler guards the same call as \<^verbatim>\<open>name?.trim()\<close>.) The state is left as it was and
  nothing is emitted.
\<close>

theorem chatMessage_missing_text_throws:
  "chatMessage st s u (Some \<lparr>p_room = Some ''general'', p_text = None\<rparr>) = (st, [], Some TypeError) \<and>
   chatMessage st s u None = (st, [], Some TypeError) \<and>
   seen st s u None = (st, [], Some TypeError)"
  by (simp add: chatMessage_def seen_def truthy_def)

subsection \<open>C3: an unauthenticated connection\<close>

text \<open>
  Claim C3. When the session of a connecting socket carries no user id, the connection
  handler disconnects the socket and emits nothing, no \<^verbatim>\<open>roomList\<close> in particular; the
  server is left as it was, without that socket; and since no handler was registered,
  any event the socket might still send is dropped: it changes nothing and is answered
  by nothing.
\<close>

theorem unauthenticated_connection_terminated:
  assumes "passport_user sess = None"
  shows "snd (connection st s sess) = ([], None) \<and>
         fst (connection st s sess) = disconnect st s \<and>
         map_of (socks (fst (connection st s sess))) s = None \<and>
         on_event (fst (connection st s sess)) s ev = (fst (connection st s sess), [], None)"
proof -
  have c: "connection st s sess = (disconnect st s, [], None)"
    using assms by (simp add: connection_def disconnect_def Let_def)
  have m: "map_of (socks (disconnect st s)) s = None"
    by (auto simp: disconnect_def map_of_eq_None_iff)
  show ?thesis using c m by (simp add: on_event_def)
qed

theorem unauthenticated_connection_terminated_witness:
  "passport_user None = None \<and>
   connection (init []) ''s1'' None = (init [], [], None) \<and>
   on_event (init []) ''s1'' (JoinRoom ''general'') = (init [], [], None)"
proof -
  have h: "passport_user None = None" by (simp add: passport_user_def)
  have d: "disconnect (init []) ''s1'' = init []" by (simp add: disconnect_def init_def)
  note w = unauthenticated_connection_terminated [OF h, of "init []" "''s1''" "JoinRoom ''general''"]
  have c: "fst (connection (init []) ''s1'' None) = init []" using w d by simp
  have c': "connection (init []) ''s1'' None = (init [], [], None)"
    using w c by (simp add: prod_eq_iff)
  have e: "on_event (init []) ''s1'' (JoinRoom ''general'') = (init [], [], None)"
    using w unfolding c by simp
  show ?thesis using h c' e by simp
qed

subsection \<open>C4: room names\<close>

text \<open>
  Claim C4 says that a created room is stored under its trimmed name and that no two
  stored rooms have names equal after trimming. The handler trims only to test for a
  blank name: after \<^verbatim>\<open>newRoom("general")\<close> and \<^verbatim>\<open>newRoom(" general")\<close> the directory
  holds both names as they were sent, the second one untrimmed, and the two are equal
  after trimming.
\<close>

theorem newRoom_name_not_trimmed:
  "map name (rooms (run (init [\<lparr>uid = 0, username = ''alice'', password = ''pw'', avatar = None\<rparr>])
      [Connection ''s1'' (Some (Some 0)),
       Inbound ''s1'' (NewRoom (Some ''general'')),
       Inbound ''s1'' (NewRoom (Some '' general''))])) = [''general'', '' general''] \<and>
   trim '' general'' = ''general'' \<and> trim ''general'' = ''general''"
  by (simp add: run_def step_def init_def connection_def passport_user_def User_findById_def
      update_sock_def socket_emit_def Room_find_sorted_def on_event_def newRoom_def truthy_def
      trim_def is_space_def Room_exists_def Room_create_def io_emit_def Let_def)

text \<open>
  Claim C4, amended. A \<^verbatim>\<open>newRoom(name)\<close> that succeeds (the name is not blank, no room
  has it, the user is one the store accepts) stores the room under the name exactly as
  it was received and sends the new list to every socket. In every state the server
  reaches, every stored room name is non-empty after trimming and no two stored rooms
  have the same name, the names compared as they are stored.
\<close>

theorem newRoom_stores_name_as_given:
  "(trim n \<noteq> [] \<and> \<not> Room_exists (rooms st) n \<and> username u \<noteq> [] \<longrightarrow>
      newRoom st s u (Some n) =
        (st\<lparr>rooms := rooms st @ [\<lparr>name = n, createdBy = username u\<rparr>]\<rparr>,
         io_emit st (RoomList (Room_find_sorted (rooms st @ [\<lparr>name = n, createdBy = username u\<rparr>]))),
         None)) \<and>
   rooms_ok (run (init us) as)"
proof -
  have "n \<noteq> []" if "trim n \<noteq> []" using that by (auto simp: trim_def)
  then have a: "trim n \<noteq> [] \<and> \<not> Room_exists (rooms st) n \<and> username u \<noteq> [] \<longrightarrow>
      newRoom st s u (Some n) =
        (st\<lparr>rooms := rooms st @ [\<lparr>name = n, createdBy = username u\<rparr>]\<rparr>,
         io_emit st (RoomList (Room_find_sorted (rooms st @ [\<lparr>name = n, createdBy = username u\<rparr>]))),
         None)"
    by (simp add: newRoom_def truthy_def Room_create_def Let_def io_emit_def)
  have b: "rooms_ok (run (init us) as)"
    by (rule rooms_ok_run [OF rooms_ok_init])
  show ?thesis using a b by blast
qed

theorem newRoom_stores_name_as_given_witness:
  "trim '' general'' \<noteq> [] \<and> \<not> Room_exists [\<lparr>name = ''general'', createdBy = ''bob''\<rparr>] '' general'' \<and>
   ''alice'' \<noteq> [] \<and>
   newRoom \<lparr>rooms = [\<lparr>name = ''general'', createdBy = ''bob''\<rparr>], messages = [], users = [],
             next_id = 0, socks = [(''s1'', \<lparr>suser = None, srooms = [''s1'']\<rparr>)], pending = []\<rparr>
     ''s1'' \<lparr>uid = 0, username = ''alice'', password = ''pw'', avatar = None\<rparr> (Some '' general'') =
     (\<lparr>rooms = [\<lparr>name = ''general'', createdBy = ''bob''\<rparr>, \<lparr>name = '' general'', createdBy = ''alice''\<rparr>],
       messages = [], users = [], next_id = 0,
       socks = [(''s1'', \<lparr>suser = None, srooms = [''s1'']\<rparr>)], pending = []\<rparr>,
      [(''s1'', RoomList [\<lparr>name = '' general'', createdBy = ''alice''\<rparr>,
                          \<lparr>name = ''general'', createdBy = ''bob''\<rparr>])], None) \<and>
   rooms_ok (run (init []) [GetIndex None])"
proof -
  have t: "trim '' general'' \<noteq> []" by (simp add: trim_def is_space_def)
  have e: "\<not> Room_exists [\<lparr>name = ''general'', createdBy = ''bob''\<rparr>] '' general''"
    by (simp add: Room_exists_def)
  have srt: "Room_find_sorted [\<lparr>name = ''general'', createdBy = ''bob''\<rparr>, \<lparr>name = '' general'', createdBy = ''alice''\<rparr>]
      = [\<lparr>name = '' general'', createdBy = ''alice''\<rparr>, \<lparr>name = ''general'', createdBy = ''bob''\<rparr>]"
    by (simp add: Room_find_sorted_def)
  show ?thesis
    using t e srt newRoom_stores_name_as_given [of "'' general''"
        "\<lparr>rooms = [\<lparr>name = ''general'', createdBy = ''bob''\<rparr>], messages = [], users = [],
             next_id = 0, socks = [(''s1'', \<lparr>suser = None, srooms = [''s1'']\<rparr>)], pending = []\<rparr>"
        "\<lparr>uid = 0, username = ''alice'', password = ''pw'', avatar = None\<rparr>" "''s1''" "[]" "[GetIndex None]"]
    by (simp add: io_emit_def)
qed

subsection \<open>C5: marking a message seen, twice in a row\<close>

text \<open>
  Claim C5 says that two \<^verbatim>\<open>seen\<close> of one message by one viewer leave the viewer's username
  once in \<^verbatim>\<open>seenBy\<close> and that only the first is broadcast. The handler tests
  \<^verbatim>\<open>m.seenBy.includes\<close> on the document it read and saves after a second \<^verbatim>\<open>await\<close>, so
  the guard does not hold the second event off when it arrives before the first has
  saved. In the run below alice sends a message to the room both are in and bob's socket
  sends \<^verbatim>\<open>seen\<close> for it twice in a row: both handlers read the message with an empty
  \<^verbatim>\<open>seenBy\<close>, both pass the test and suspend at \<^verbatim>\<open>m.save()\<close>; each then pushes
  \<^verbatim>\<open>bob\<close> in the store and broadcasts \<^verbatim>\<open>seenUpdate\<close>. The stored \<^verbatim>\<open>seenBy\<close> ends up
  holding \<^verbatim>\<open>bob\<close> twice, and the room has received two broadcasts.
\<close>

theorem seen_twice_in_a_row_duplicates:
  "pending (run (init [\<lparr>uid = 0, username = ''alice'', password = ''pw'', avatar = None\<rparr>,
                    \<lparr>uid = 1, username = ''bob'', password = ''pw'', avatar = None\<rparr>])
        [Connection ''s1'' (Some (Some 0)), Connection ''s2'' (Some (Some 1)),
         Inbound ''s1'' (JoinRoom ''general''), Inbound ''s2'' (JoinRoom ''general''),
         Inbound ''s1'' (ChatMessage (Some \<lparr>p_room = Some ''general'', p_text = Some ''hi''\<rparr>)),
         Inbound ''s2'' (Seen (Some \<lparr>messageId = Some 0\<rparr>)),
         Inbound ''s2'' (Seen (Some \<lparr>messageId = Some 0\<rparr>)),
         Resume 0, Resume 1]) =
     [AtSave \<lparr>uid = 1, username = ''bob'', password = ''pw'', avatar = None\<rparr>
        \<lparr>mid = 0, room = ''general'', user = ''alice'', m_avatar = None, m_text = ''hi'',
          seenBy = [''bob'']\<rparr>,
      AtSave \<lparr>uid = 1, username = ''bob'', password = ''pw'', avatar = None\<rparr>
        \<lparr>mid = 0, room = ''general'', user = ''alice'', m_avatar = None, m_text = ''hi'',
          seenBy = [''bob'']\<rparr>] \<and>
   fst (snd (resume (run (init [\<lparr>uid = 0, username = ''alice'', password = ''pw'', avatar = None\<rparr>,
                    \<lparr>uid = 1, username = ''bob'', password = ''pw'', avatar = None\<rparr>])
        [Connection ''s1'' (Some (Some 0)), Connection ''s2'' (Some (Some 1)),
         Inbound ''s1'' (JoinRoom ''general''), Inbound ''s2'' (JoinRoom ''general''),
         Inbound ''s1'' (ChatMessage (Some \<lparr>p_room = Some ''general'', p_text = Some ''hi''\<rparr>)),
         Inbound ''s2'' (Seen (Some \<lparr>messageId = Some 0\<rparr>)),
         Inbound ''s2'' (Seen (Some \<lparr>messageId = Some 0\<rparr>)),
         Resume 0, Resume 1]) 0)) = [(''s1'', SeenUpdate 0 [''bob'']), (''s2'', SeenUpdate 0 [''bob''])] \<and>
   fst (snd (resume (fst (resume (run (init [\<lparr>uid = 0, username = ''alice'', password = ''pw'', avatar = None\<rparr>,
                    \<lparr>uid = 1, username = ''bob'', password = ''pw'', avatar = None\<rparr>])
        [Connection ''s1'' (Some (Some 0)), Connection ''s2'' (Some (Some 1)),
         Inbound ''s1'' (JoinRoom ''general''), Inbound ''s2'' (JoinRoom ''general''),
         Inbound ''s1'' (ChatMessage (Some \<lparr>p_room = Some ''general'', p_text = Some ''hi''\<rparr>)),
         Inbound ''s2'' (Seen (Some \<lparr>messageId = Some 0\<rparr>)),
         Inbound ''s2'' (Seen (Some \<lparr>messageId = Some 0\<rparr>)),
         Resume 0, Resume 1]) 0)) 0)) =
     [(''s1'', SeenUpdate 0 [''bob'']), (''s2'', SeenUpdate 0 [''bob''])] \<and>
   map seenBy (messages (fst (resume (fst (resume (run (init [\<lparr>uid = 0, username = ''alice'', password = ''pw'', avatar = None\<rparr>,
                    \<lparr>uid = 1, username = ''bob'', password = ''pw'', avatar = None\<rparr>])
        [Connection ''s1'' (Some (Some 0)), Connection ''s2'' (Some (Some 1)),
         Inbound ''s1'' (JoinRoom ''general''), Inbound ''s2'' (JoinRoom ''general''),
         Inbound ''s1'' (ChatMessage (Some \<lparr>p_room = Some ''general'', p_text = Some ''hi''\<rparr>)),
         Inbound ''s2'' (Seen (Some \<lparr>messageId = Some 0\<rparr>)),
         Inbound ''s2'' (Seen (Some \<lparr>messageId = Some 0\<rparr>)),
         Resume 0, Resume 1]) 0)) 0))) = [[''bob'', ''bob'']]"
  by (simp add: run_def step_def init_def connection_def disconnect_def passport_user_def
      User_findById_def update_sock_def socket_emit_def Room_find_sorted_def on_event_def
      joinRoom_def leaveAll_def join_def Message_find_def chatMessage_def truthy_def trim_def
      is_space_def Message_create_def io_to_def seen_def resume_def seen_found_def
      seen_saved_def Message_findById_def Message_save_def Let_def)

subsection \<open>C6: only the author deletes a message\<close>

text \<open>
  Claim C6. A \<^verbatim>\<open>deleteMessage(id)\<close> from a connection whose username is not the author
  of the message leaves the whole state as it was, the message with it, and emits
  nothing. Whenever the handler does anything at all, the message exists, the requester
  is its author, the message is deleted and \<^verbatim>\<open>messageDeleted\<close> goes to the message's
  room.
\<close>

theorem deleteMessage_author_only:
  "(Message_findById (messages st) (Some i) = Some m \<and> user m \<noteq> username u \<longrightarrow>
      deleteMessage st s u i = (st, [], None)) \<and>
   (deleteMessage st s u i \<noteq> (st, [], None) \<longrightarrow>
      (\<exists>m'. Message_findById (messages st) (Some i) = Some m' \<and> user m' = username u \<and>
         deleteMessage st s u i =
           (Message_deleteOne st i, io_to st (room m') (MessageDeleted i), None)))"
  by (auto simp: deleteMessage_def Let_def Message_deleteOne_def io_to_def split: option.splits)

theorem deleteMessage_author_only_witness:
  "Message_findById
     [\<lparr>mid = 0, room = ''general'', user = ''alice'', m_avatar = None, m_text = ''hi'', seenBy = []\<rparr>]
     (Some 0) =
     Some \<lparr>mid = 0, room = ''general'', user = ''alice'', m_avatar = None, m_text = ''hi'', seenBy = []\<rparr> \<and>
   ''alice'' \<noteq> ''bob'' \<and>
   deleteMessage \<lparr>rooms = [], messages = [\<lparr>mid = 0, room = ''general'', user = ''alice'', m_avatar = None,
            m_text = ''hi'', seenBy = []\<rparr>], users = [], next_id = 1,
          socks = [(''s1'', \<lparr>suser = None, srooms = [''general'']\<rparr>)], pending = []\<rparr>
     ''s2'' \<lparr>uid = 1, username = ''bob'', password = ''pw'', avatar = None\<rparr> 0 =
     (\<lparr>rooms = [], messages = [\<lparr>mid = 0, room = ''general'', user = ''alice'', m_avatar = None,
            m_text = ''hi'', seenBy = []\<rparr>], users = [], next_id = 1,
          socks = [(''s1'', \<lparr>suser = None, srooms = [''general'']\<rparr>)], pending = []\<rparr>, [], None)"
proof -
  let ?m = "\<lparr>mid = 0, room = ''general'', user = ''alice'', m_avatar = None, m_text = ''hi'', seenBy = []\<rparr>"
  let ?st = "\<lparr>rooms = [], messages = [?m], users = [], next_id = 1,
          socks = [(''s1'', \<lparr>suser = None, srooms = [''general'']\<rparr>)], pending = []\<rparr>"
  let ?u = "\<lparr>uid = 1, username = ''bob'', password = ''pw'', avatar = None\<rparr>"
  have f: "Message_findById (messages ?st) (Some 0) = Some ?m"
    by (simp add: Message_findById_def)
  show ?thesis
    using f deleteMessage_author_only [of ?st 0 ?m ?u "''s2''"]
    by simp
qed

subsection \<open>C7: typing reaches the typist too\<close>

text \<open>
  Claim C7 says that \<^verbatim>\<open>typing\<close> goes to every member of the room but the sender. The
  handler does send it with \<^verbatim>\<open>socket.to(room)\<close>, which leaves out the sockets in the
  room named by the sender's id; but \<^verbatim>\<open>joinRoom\<close> has called \<^verbatim>\<open>socket.leaveAll()\<close>, and a
  socket that entered a room that way is no longer in the room of its own id. In the
  run below alice and bob have joined the same room: alice's \<^verbatim>\<open>typing\<close>, and her
  \<^verbatim>\<open>stopTyping\<close>, reach bob's socket and her own.
\<close>

theorem typing_reaches_sender:
  "map (\<lambda>p. (fst p, srooms (snd p))) (socks (run (init [\<lparr>uid = 0, username = ''alice'', password = ''pw'', avatar = None\<rparr>,
                    \<lparr>uid = 1, username = ''bob'', password = ''pw'', avatar = None\<rparr>])
        [Connection ''s1'' (Some (Some 0)), Connection ''s2'' (Some (Some 1)),
         Inbound ''s1'' (JoinRoom ''general''), Inbound ''s2'' (JoinRoom ''general'')])) =
     [(''s1'', [''general'']), (''s2'', [''general''])] \<and>
   fst (snd (on_event (run (init [\<lparr>uid = 0, username = ''alice'', password = ''pw'', avatar = None\<rparr>,
                    \<lparr>uid = 1, username = ''bob'', password = ''pw'', avatar = None\<rparr>])
        [Connection ''s1'' (Some (Some 0)), Connection ''s2'' (Some (Some 1)),
         Inbound ''s1'' (JoinRoom ''general''), Inbound ''s2'' (JoinRoom ''general'')]) ''s1'' (Typing (Some ''general'')))) =
     [(''s1'', TypingEv ''alice''), (''s2'', TypingEv ''alice'')] \<and>
   fst (snd (on_event (run (init [\<lparr>uid = 0, username = ''alice'', password = ''pw'', avatar = None\<rparr>,
                    \<lparr>uid = 1, username = ''bob'', password = ''pw'', avatar = None\<rparr>])
        [Connection ''s1'' (Some (Some 0)), Connection ''s2'' (Some (Some 1)),
         Inbound ''s1'' (JoinRoom ''general''), Inbound ''s2'' (JoinRoom ''general'')]) ''s1'' (StopTyping (Some ''general'')))) =
     [(''s1'', StopTypingEv), (''s2'', StopTypingEv)]"
  by (simp add: run_def step_def init_def connection_def disconnect_def passport_user_def
      User_findById_def update_sock_def socket_emit_def Room_find_sorted_def on_event_def
      joinRoom_def leaveAll_def join_def Message_find_def typing_def stopTyping_def truthy_def
      socket_to_def Let_def)

subsection \<open>C8: the lobby\<close>

text \<open>
  Claim C8. When the room directory is empty, the index page requested by a user (one of
  the store, whose username is therefore not empty) creates the single room
  \<^verbatim>\<open>lobby\<close>, created by that user's username, and renders the list holding exactly
  that room.
\<close>

theorem index_creates_lobby:
  assumes "rooms st = []" and "username u \<noteq> []"
  shows "index st (Some u) =
           (st\<lparr>rooms := [\<lparr>name = ''lobby'', createdBy = username u\<rparr>]\<rparr>,
            Some (Render u [\<lparr>name = ''lobby'', createdBy = username u\<rparr>]), None)"
  using assms
  by (simp add: index_def Room_find_sorted_Nil Room_create_def Room_exists_def Let_def)

theorem index_creates_lobby_witness:
  "rooms (init []) = [] \<and> ''alice'' \<noteq> [] \<and>
   index (init []) (Some \<lparr>uid = 0, username = ''alice'', password = ''pw'', avatar = None\<rparr>) =
     (\<lparr>rooms = [\<lparr>name = ''lobby'', createdBy = ''alice''\<rparr>], messages = [], users = [],
       next_id = 0, socks = [], pending = []\<rparr>,
      Some (Render \<lparr>uid = 0, username = ''alice'', password = ''pw'', avatar = None\<rparr>
              [\<lparr>name = ''lobby'', createdBy = ''alice''\<rparr>]), None)"
proof -
  have r: "rooms (init []) = []" by (simp add: init_def)
  have n: "username \<lparr>uid = 0, username = ''alice'', password = ''pw'', avatar = None\<rparr> \<noteq> []" by simp
  show ?thesis
    using r index_creates_lobby [OF r n] by (simp add: init_def)
qed

subsection \<open>C9: deleting a room keeps its messages\<close>

text \<open>
  Claim C9. \<^verbatim>\<open>deleteRoom\<close> changes nothing of the state but the room collection, from
  which it removes the room when the requester created it; the message log stays as it
  was. So when a room of the same name is created afterwards, \<^verbatim>\<open>joinRoom\<close> on it sends
  as history the messages the log held for that name before the deletion.
\<close>

theorem deleteRoom_keeps_messages:
  "(fst (deleteRoom st s u nm))\<lparr>rooms := rooms st\<rparr> = st \<and>
   messages (fst (deleteRoom st s u nm)) = messages st \<and>
   (Room_findOne (rooms st) nm = Some r \<and> createdBy r = username u \<longrightarrow>
      rooms (fst (deleteRoom st s u nm)) = remove1 r (rooms st)) \<and>
   fst (snd (joinRoom (fst (newRoom (fst (deleteRoom st s u nm)) s' u' (Some nm))) s'' u'' nm)) =
     [(s'', History (filter (\<lambda>m. room m = nm) (messages st)))]"
proof -
  have a: "(fst (deleteRoom st s u nm))\<lparr>rooms := rooms st\<rparr> = st"
    by (simp add: deleteRoom_def Room_deleteOne_def Let_def split: option.splits)
  have b: "Room_findOne (rooms st) nm = Some r \<and> createdBy r = username u \<longrightarrow>
      rooms (fst (deleteRoom st s u nm)) = remove1 r (rooms st)"
    by (simp add: deleteRoom_def Room_deleteOne_def Let_def)
  show ?thesis
    using a b by (simp add: joinRoom_history messages_newRoom messages_deleteRoom)
qed

theorem deleteRoom_keeps_messages_witness:
  "Room_findOne [\<lparr>name = ''general'', createdBy = ''alice''\<rparr>] ''general'' =
     Some \<lparr>name = ''general'', createdBy = ''alice''\<rparr> \<and>
   rooms (fst (deleteRoom
     \<lparr>rooms = [\<lparr>name = ''general'', createdBy = ''alice''\<rparr>],
       messages = [\<lparr>mid = 0, room = ''general'', user = ''alice'', m_avatar = None,
                    m_text = ''hi'', seenBy = []\<rparr>],
       users = [], next_id = 1, socks = [], pending = []\<rparr>
     ''s1'' \<lparr>uid = 0, username = ''alice'', password = ''pw'', avatar = None\<rparr> ''general'')) = [] \<and>
   fst (snd (joinRoom (fst (newRoom (fst (deleteRoom
     \<lparr>rooms = [\<lparr>name = ''general'', createdBy = ''alice''\<rparr>],
       messages = [\<lparr>mid = 0, room = ''general'', user = ''alice'', m_avatar = None,
                    m_text = ''hi'', seenBy = []\<rparr>],
       users = [], next_id = 1, socks = [], pending = []\<rparr>
     ''s1'' \<lparr>uid = 0, username = ''alice'', password = ''pw'', avatar = None\<rparr> ''general''))
       ''s2'' \<lparr>uid = 1, username = ''bob'', password = ''pw'', avatar = None\<rparr> (Some ''general'')))
       ''s2'' \<lparr>uid = 1, username = ''bob'', password = ''pw'', avatar = None\<rparr> ''general'')) =
     [(''s2'', History [\<lparr>mid = 0, room = ''general'', user = ''alice'', m_avatar = None,
                    m_text = ''hi'', seenBy = []\<rparr>])]"
proof -
  let ?r = "\<lparr>name = ''general'', createdBy = ''alice''\<rparr>"
  let ?st = "\<lparr>rooms = [?r],
       messages = [\<lparr>mid = 0, room = ''general'', user = ''alice'', m_avatar = None,
                    m_text = ''hi'', seenBy = []\<rparr>],
       users = [], next_id = 1, socks = [], pending = []\<rparr>"
  have f: "Room_findOne (rooms ?st) ''general'' = Some ?r"
    by (simp add: Room_findOne_def)
  show ?thesis
    using f deleteRoom_keeps_messages [of ?st "''s1''"
        "\<lparr>uid = 0, username = ''alice'', password = ''pw'', avatar = None\<rparr>" "''general''" ?r
        "''s2''" "\<lparr>uid = 1, username = ''bob'', password = ''pw'', avatar = None\<rparr>"
        "''s2''" "\<lparr>uid = 1, username = ''bob'', password = ''pw'', avatar = None\<rparr>"]
    by simp
qed

subsection \<open>C10: message text is stored untrimmed\<close>

text \<open>
  Claim C10. A \<^verbatim>\<open>chatMessage\<close> with a non-empty room and a text that is not blank, sent
  by a user of the store, appends to the log one message whose text is the text exactly
  as received, and broadcasts that same message to the room: trimming serves the test for
  a blank text only, so white space at either end of the text is kept.
\<close>

theorem chatMessage_text_untrimmed:
  assumes "r \<noteq> []" and "trim t \<noteq> []" and "username u \<noteq> []"
  shows "chatMessage st s u (Some \<lparr>p_room = Some r, p_text = Some t\<rparr>) =
           (st\<lparr>messages := messages st @
                  [\<lparr>mid = next_id st, room = r, user = username u, m_avatar = avatar u,
                    m_text = t, seenBy = []\<rparr>],
                next_id := Suc (next_id st)\<rparr>,
            io_to st r (MessageEv \<lparr>mid = next_id st, room = r, user = username u,
                    m_avatar = avatar u, m_text = t, seenBy = []\<rparr>),
            None)"
proof -
  from assms(2) have "t \<noteq> []" by (auto simp: trim_def)
  with assms show ?thesis
    by (simp add: chatMessage_def truthy_def Message_create_def Let_def io_to_def)
qed

theorem chatMessage_text_untrimmed_witness:
  "''general'' \<noteq> [] \<and> trim '' hi '' \<noteq> [] \<and> ''alice'' \<noteq> [] \<and>
   chatMessage \<lparr>rooms = [], messages = [], users = [], next_id = 0,
                 socks = [(''s1'', \<lparr>suser = None, srooms = [''general'']\<rparr>)], pending = []\<rparr>
     ''s1'' \<lparr>uid = 0, username = ''alice'', password = ''pw'', avatar = None\<rparr>
     (Some \<lparr>p_room = Some ''general'', p_text = Some '' hi ''\<rparr>) =
     (\<lparr>rooms = [],
       messages = [\<lparr>mid = 0, room = ''general'', user = ''alice'', m_avatar = None,
                    m_text = '' hi '', seenBy = []\<rparr>],
       users = [], next_id = 1,
       socks = [(''s1'', \<lparr>suser = None, srooms = [''general'']\<rparr>)], pending = []\<rparr>,
      [(''s1'', MessageEv \<lparr>mid = 0, room = ''general'', user = ''alice'', m_avatar = None,
                    m_text = '' hi '', seenBy = []\<rparr>)], None)"
proof -
  have r: "''general'' \<noteq> []" by simp
  have t: "trim '' hi '' \<noteq> []" by (simp add: trim_def is_space_def)
  have n: "username \<lparr>uid = 0, username = ''alice'', password = ''pw'', avatar = None\<rparr> \<noteq> []" by simp
  show ?thesis
    using t chatMessage_text_untrimmed [OF r t n,
        of "\<lparr>rooms = [], messages = [], users = [], next_id = 0,
                 socks = [(''s1'', \<lparr>suser = None, srooms = [''general'']\<rparr>)], pending = []\<rparr>" "''s1''"]
    by (simp add: io_to_def)
qed

end
